theory Spec2Isabelle
  imports Complex_Main "HOL-Library.Word" "HOL-Library.Log_Nat"
begin

section \<open>libdns-immosquare: the record translator and the HTTP operations of provider.go\<close>

text \<open>
  A Go \<^verbatim>\<open>string\<close> is a sequence of bytes: it is modelled as \<^typ>\<open>string\<close>, one
  \<^typ>\<open>char\<close> per byte. The functions of the Go standard library and of libdns that
  provider.go calls are modelled first, then the functions of provider.go in the order of
  the source.
\<close>

subsection \<open>Go standard library: strings\<close>

definition byte :: "char \<Rightarrow> nat" where
  "byte c = of_char c"

text \<open>
  \<^verbatim>\<open>strings.ToUpper\<close>. provider.go only compares the result with the ASCII constants
  A, AAAA, TXT, CNAME, MX and NS. ASCII letters are mapped to upper case; of the runes
  beyond ASCII only U+017F (long s, the bytes C5 BF) has an upper case that occurs in
  one of these constants (S), so it is mapped as Go maps it and every other byte is kept:
  the result is one of the six constants exactly when Go's is.
\<close>

definition upper_byte :: "char \<Rightarrow> char" where
  "upper_byte c =
     (if 97 \<le> byte c \<and> byte c \<le> 122 then ''ABCDEFGHIJKLMNOPQRSTUVWXYZ'' ! (byte c - 97) else c)"

fun ToUpper :: "string \<Rightarrow> string" where
  "ToUpper [] = []"
| "ToUpper [c] = [upper_byte c]"
| "ToUpper (c # d # cs) =
     (if byte c = 197 \<and> byte d = 191 then CHR ''S'' # ToUpper cs
      else upper_byte c # ToUpper (d # cs))"

text \<open>
  \<^verbatim>\<open>unicode.IsSpace\<close> on the UTF-8 bytes of a string: \<open>space_width s\<close> is the number of
  bytes of the white-space rune that \<open>s\<close> starts with, and 0 when it starts with none.
  White space is U+0009..U+000D, U+0020, U+0085, U+00A0, U+1680, U+2000..U+200A, U+2028,
  U+2029, U+202F, U+205F and U+3000. Their first bytes (C2, E1, E2, E3) never occur
  inside another rune, so matching the byte patterns finds the same runes as decoding.
\<close>

definition space_width :: "string \<Rightarrow> nat" where
  "space_width s =
     (case map byte (take 3 s) of
        [] \<Rightarrow> 0
      | b0 # r \<Rightarrow>
          if (9 \<le> b0 \<and> b0 \<le> 13) \<or> b0 = 32 then 1
          else if b0 = 194 then
            (case r of b1 # _ \<Rightarrow> if b1 = 133 \<or> b1 = 160 then 2 else 0 | [] \<Rightarrow> 0)
          else if b0 = 225 then (if r = [154, 128] then 3 else 0)
          else if b0 = 226 then
            (case r of
               [b1, b2] \<Rightarrow>
                 if b1 = 128 \<and> ((128 \<le> b2 \<and> b2 \<le> 138) \<or> b2 = 168 \<or> b2 = 169 \<or> b2 = 175)
                 then 3
                 else if b1 = 129 \<and> b2 = 159 then 3 else 0
             | _ \<Rightarrow> 0)
          else if b0 = 227 then (if r = [128, 128] then 3 else 0)
          else 0)"

text \<open>
  \<^verbatim>\<open>strings.Fields\<close>: the maximal runs of bytes between white space, in order.
  \<open>FieldsFrom k cur s\<close> scans \<open>s\<close>; \<open>k\<close> counts the bytes of a white-space rune still to
  skip and \<open>cur\<close> is the field being read (\<open>None\<close> between fields).
\<close>

fun FieldsFrom :: "nat \<Rightarrow> string option \<Rightarrow> string \<Rightarrow> string list" where
  "FieldsFrom k cur [] = (case cur of None \<Rightarrow> [] | Some f \<Rightarrow> [f])"
| "FieldsFrom (Suc k) cur (c # cs) = FieldsFrom k cur cs"
| "FieldsFrom 0 cur (c # cs) =
     (if 0 < space_width (c # cs) then
        (case cur of
           None \<Rightarrow> FieldsFrom (space_width (c # cs) - 1) None cs
         | Some f \<Rightarrow> f # FieldsFrom (space_width (c # cs) - 1) None cs)
      else FieldsFrom 0 (Some ((case cur of None \<Rightarrow> [] | Some f \<Rightarrow> f) @ [c])) cs)"

definition Fields :: "string \<Rightarrow> string list" where
  "Fields s = FieldsFrom 0 None s"

text \<open>\<^verbatim>\<open>strings.Join\<close>.\<close>

fun Join :: "string list \<Rightarrow> string \<Rightarrow> string" where
  "Join [] sep = []"
| "Join [x] sep = x"
| "Join (x # y # ys) sep = x @ sep @ Join (y # ys) sep"

subsection \<open>Go standard library: fmt\<close>

text \<open>
  \<^verbatim>\<open>fmt.Sscanf(s, "%d", &result)\<close> with \<^verbatim>\<open>result\<close> a \<^verbatim>\<open>uint16\<close>: leading white space is
  skipped (a newline is an error), then the longest run of decimal digits is read and
  must not be empty; it is converted by \<^verbatim>\<open>strconv.ParseUint(tok, 10, 64)\<close> and must fit
  16 bits. Whatever follows the digits is left unread, and \<^verbatim>\<open>Sscanf\<close> does not report it.
\<close>

datatype scan_error =
  UnexpectedNewline | UnexpectedEOF | ExpectedInteger | ValueOutOfRange | UnsignedIntegerOverflow

fun SkipSpace :: "nat \<Rightarrow> string \<Rightarrow> scan_error + string" where
  "SkipSpace k [] = Inr []"
| "SkipSpace (Suc k) (c # cs) = SkipSpace k cs"
| "SkipSpace 0 (c # cs) =
     (if byte c = 10 then Inl UnexpectedNewline
      else if 0 < space_width (c # cs) then SkipSpace (space_width (c # cs) - 1) cs
      else Inr (c # cs))"

definition is_digit :: "char \<Rightarrow> bool" where
  "is_digit c = (48 \<le> byte c \<and> byte c \<le> 57)"

definition decimal :: "string \<Rightarrow> nat" where
  "decimal ds = foldl (\<lambda>a c. 10 * a + (byte c - 48)) 0 ds"

definition scanUint16 :: "string \<Rightarrow> scan_error + 16 word" where
  "scanUint16 s =
     (case SkipSpace 0 s of
        Inl e \<Rightarrow> Inl e
      | Inr r \<Rightarrow>
          if r = [] then Inl UnexpectedEOF
          else let tok = takeWhile is_digit r in
            if tok = [] then Inl ExpectedInteger
            else if 2 ^ 64 \<le> decimal tok then Inl ValueOutOfRange
            else if 2 ^ 16 \<le> decimal tok then Inl UnsignedIntegerOverflow
            else Inr (of_nat (decimal tok)))"

text \<open>\<^verbatim>\<open>fmt.Sprintf("%d", n)\<close> for an unsigned \<open>n\<close>.\<close>

fun digits_of :: "nat \<Rightarrow> string" where
  "digits_of n =
     (if n < 10 then [''0123456789'' ! n]
      else digits_of (n div 10) @ [''0123456789'' ! (n mod 10)])"

subsection \<open>Go standard library: time\<close>

text \<open>
  A \<^verbatim>\<open>time.Duration\<close> is an \<^verbatim>\<open>int64\<close> count of nanoseconds: a 64-bit word, read as
  signed by \<^const>\<open>sint\<close>; multiplication wraps.
\<close>

type_synonym Duration = "64 word"

definition Second :: Duration where
  "Second = 1000000000"

text \<open>
  \<^verbatim>\<open>float64\<close> arithmetic, on the rationals: \<open>float64_round x\<close> is the double nearest to
  \<open>x\<close> (53 bits of precision, ties to even). The values of this program lie between
  \<open>10\<^sup>-\<^sup>9\<close> and \<open>10\<^sup>1\<^sup>0\<close> in magnitude or are 0, away from overflow and from subnormals.
\<close>

definition pow2 :: "int \<Rightarrow> rat" where
  "pow2 e = (if 0 \<le> e then 2 ^ nat e else 1 / 2 ^ nat (- e))"

definition ilog2 :: "rat \<Rightarrow> int" where
  "ilog2 x = (if 1 \<le> x then bitlen \<lfloor>x\<rfloor> - 1 else - bitlen (\<lceil>1 / x\<rceil> - 1))"

definition round_half_even :: "rat \<Rightarrow> int" where
  "round_half_even x =
     (let f = \<lfloor>x\<rfloor>; d = x - of_int f in
      if d < 1 / 2 then f else if 1 / 2 < d then f + 1 else if even f then f else f + 1)"

definition float64_round :: "rat \<Rightarrow> rat" where
  "float64_round x =
     (if x = 0 then 0
      else let u = pow2 (ilog2 \<bar>x\<bar> - 52) in of_int (round_half_even (x / u)) * u)"

text \<open>The quotient of Go's integer division, which rounds towards zero.\<close>

definition quo :: "int \<Rightarrow> int \<Rightarrow> int" where
  "quo a b = (if (a < 0) = (b < 0) then \<bar>a\<bar> div \<bar>b\<bar> else - (\<bar>a\<bar> div \<bar>b\<bar>))"

text \<open>
  \<^verbatim>\<open>func (d Duration) Seconds() float64 { sec := d / Second; nsec := d % Second;
  return float64(sec) + float64(nsec)/1e9 }\<close>: two conversions, a division and an
  addition, each rounded to a double (the constant \<^verbatim>\<open>1e9\<close> is one).
\<close>

definition Seconds :: "Duration \<Rightarrow> rat" where
  "Seconds d =
     (let sec = quo (sint d) (sint Second);
          nsec = sint d - sec * sint Second
      in float64_round
           (float64_round (of_int sec) +
            float64_round (float64_round (of_int nsec) / 1000000000)))"

text \<open>The conversion \<^verbatim>\<open>int(f)\<close> of a \<^verbatim>\<open>float64\<close>: the fraction is discarded.\<close>

definition int_of_float64 :: "rat \<Rightarrow> int" where
  "int_of_float64 x = (if 0 \<le> x then \<lfloor>x\<rfloor> else \<lceil>x\<rceil>)"

subsection \<open>Go standard library: net/netip\<close>

text \<open>
  \<^verbatim>\<open>netip.Addr\<close> is a type parameter \<open>'ip\<close>, and the three functions of the package that
  provider.go and libdns call are parameters of the model: \<^verbatim>\<open>netip.ParseAddr\<close> (\<open>None\<close>
  when it returns an error), \<^verbatim>\<open>Addr.String\<close> and \<^verbatim>\<open>Addr.Is6\<close>.
\<close>

record 'ip netip =
  ParseAddr :: "string \<Rightarrow> 'ip option"
  AddrString :: "'ip \<Rightarrow> string"
  Is6 :: "'ip \<Rightarrow> bool"

subsection \<open>libdns: the records and their \<^verbatim>\<open>RR()\<close> projection\<close>

text \<open>
  \<^verbatim>\<open>libdns.RR\<close> is the generic record; \<^verbatim>\<open>libdns.Record\<close> is the interface of the typed
  records, here the six variants the provider produces, each with the fields that
  provider.go reads and writes, in the order of the libdns structs: Address (Name, TTL,
  IP); TXT (Name, TTL, Text); CNAME, NS (Name, TTL, Target); MX (Name, TTL, Preference,
  Target). Two records are equal here when they are of the same variant with the same
  name, TTL and value.
\<close>

record RR =
  Name :: string
  TTL :: Duration
  Type :: string
  Data :: string

datatype 'ip Record =
    Address string Duration 'ip
  | TXT string Duration string
  | CNAME string Duration string
  | MX string Duration "16 word" string
  | NS string Duration string
  | Generic RR

text \<open>
  The method \<^verbatim>\<open>RR()\<close> of each variant, as libdns defines it: an Address is of type AAAA
  when \<^verbatim>\<open>IP.Is6()\<close> and A otherwise, with \<^verbatim>\<open>IP.String()\<close> as data; the data of an MX is
  \<^verbatim>\<open>fmt.Sprintf("%d %s", Preference, Target)\<close>, and empty for the MX that has neither a
  preference nor a target (preference 0 and the empty target).
\<close>

fun RR_of :: "'ip netip \<Rightarrow> 'ip Record \<Rightarrow> RR" where
  "RR_of N (Address name ttl ip) =
     \<lparr>Name = name, TTL = ttl, Type = (if Is6 N ip then ''AAAA'' else ''A''),
      Data = AddrString N ip\<rparr>"
| "RR_of N (TXT name ttl text) = \<lparr>Name = name, TTL = ttl, Type = ''TXT'', Data = text\<rparr>"
| "RR_of N (CNAME name ttl target) =
     \<lparr>Name = name, TTL = ttl, Type = ''CNAME'', Data = target\<rparr>"
| "RR_of N (MX name ttl preference target) =
     \<lparr>Name = name, TTL = ttl, Type = ''MX'',
      Data = (if preference = 0 \<and> target = [] then []
              else digits_of (unat preference) @ '' '' @ target)\<rparr>"
| "RR_of N (NS name ttl target) = \<lparr>Name = name, TTL = ttl, Type = ''NS'', Data = target\<rparr>"
| "RR_of N (Generic rr) = rr"

subsection \<open>provider.go: decoding one record\<close>

datatype error =
    EndpointRequired
  | RequestCreationError string
  | ClientError string
  | GETRequestError error
  | POSTRequestError error
  | PUTRequestError error
  | DELETERequestError error
  | APIError string
  | APIErrorDuringAddition string
  | APIErrorDuringUpdate string
  | BodyReadingError string
  | JSONDecodingError
  | RecordConversionError error
  | InvalidIPAddress string

text \<open>The element type of the response: the anonymous struct with the json tags
  name, type, value and ttl (a Go \<^verbatim>\<open>int\<close>, 64 bits).\<close>

record APIRecord =
  api_Name :: string
  api_Type :: string
  api_Value :: string
  api_TTL :: "64 word"

definition parseUint16 :: "string \<Rightarrow> scan_error + 16 word" where
  "parseUint16 s = scanUint16 s"

text \<open>
  The MX case, which \<^verbatim>\<open>convertAPIRecordToLibDNS\<close> and \<^verbatim>\<open>convertToSpecificTypes\<close> both
  spell out: the pair \<^verbatim>\<open>(preference, target)\<close> computed from the value.
\<close>

definition mx_parts :: "string \<Rightarrow> 16 word \<times> string" where
  "mx_parts v =
     (let parts = Fields v in
      if 2 \<le> length parts then
        (case parseUint16 (hd parts) of
           Inr pref \<Rightarrow> (pref, Join (tl parts) '' '')
         | Inl err \<Rightarrow> (10, v))
      else (10, v))"

definition convertAPIRecordToLibDNS :: "'ip netip \<Rightarrow> APIRecord \<Rightarrow> error + 'ip Record" where
  "convertAPIRecordToLibDNS N apiRecord =
     (let ttl = api_TTL apiRecord * Second; t = ToUpper (api_Type apiRecord) in
      if t = ''A'' \<or> t = ''AAAA'' then
        (case ParseAddr N (api_Value apiRecord) of
           None \<Rightarrow> Inl (InvalidIPAddress (api_Value apiRecord))
         | Some ip \<Rightarrow> Inr (Address (api_Name apiRecord) ttl ip))
      else if t = ''TXT'' then Inr (TXT (api_Name apiRecord) ttl (api_Value apiRecord))
      else if t = ''CNAME'' then Inr (CNAME (api_Name apiRecord) ttl (api_Value apiRecord))
      else if t = ''MX'' then
        (let (preference, target) = mx_parts (api_Value apiRecord)
         in Inr (MX (api_Name apiRecord) ttl preference target))
      else if t = ''NS'' then Inr (NS (api_Name apiRecord) ttl (api_Value apiRecord))
      else Inr (Generic \<lparr>Name = api_Name apiRecord, TTL = ttl, Type = api_Type apiRecord,
                         Data = api_Value apiRecord\<rparr>))"

subsection \<open>provider.go: re-typing the caller's records\<close>

text \<open>The body of the loop of \<^verbatim>\<open>convertToSpecificTypes\<close>: the record appended for one input.\<close>

definition convertToSpecificType :: "'ip netip \<Rightarrow> 'ip Record \<Rightarrow> 'ip Record" where
  "convertToSpecificType N record =
     (let rr = RR_of N record; t = ToUpper (Type rr) in
      if t = ''A'' \<or> t = ''AAAA'' then
        (case ParseAddr N (Data rr) of
           None \<Rightarrow> Generic rr
         | Some ip \<Rightarrow> Address (Name rr) (TTL rr) ip)
      else if t = ''TXT'' then TXT (Name rr) (TTL rr) (Data rr)
      else if t = ''CNAME'' then CNAME (Name rr) (TTL rr) (Data rr)
      else if t = ''MX'' then
        (let (preference, target) = mx_parts (Data rr)
         in MX (Name rr) (TTL rr) preference target)
      else if t = ''NS'' then NS (Name rr) (TTL rr) (Data rr)
      else Generic rr)"

fun convertToSpecificTypesFrom :: "'ip netip \<Rightarrow> 'ip Record list \<Rightarrow> 'ip Record list \<Rightarrow> 'ip Record list" where
  "convertToSpecificTypesFrom N result [] = result"
| "convertToSpecificTypesFrom N result (record # records) =
     convertToSpecificTypesFrom N (result @ [convertToSpecificType N record]) records"

definition convertToSpecificTypes :: "'ip netip \<Rightarrow> 'ip Record list \<Rightarrow> 'ip Record list" where
  "convertToSpecificTypes N records = convertToSpecificTypesFrom N [] records"

subsection \<open>Go standard library: encoding/json\<close>

text \<open>
  A JSON text, after the syntax check that \<^verbatim>\<open>json.Unmarshal\<close> makes first: a value, the
  members of an object in the order of the text. \<open>JInt\<close> is a number written as an
  integer (an optional minus sign and digits); \<open>JOtherNumber\<close> is a number with a fraction
  or an exponent, which Go does not store in an \<^verbatim>\<open>int\<close>. \<open>JString\<close> holds the Go string
  that the decoder makes of a string of the text: the escapes decoded and U+FFFD in the
  place of every byte that is not part of a valid UTF-8 encoding.
\<close>

datatype json =
    JNull
  | JBool bool
  | JInt int
  | JOtherNumber
  | JString string
  | JArray "json list"
  | JObject "(string \<times> json) list"

text \<open>
  A key of an object names a struct field when it equals the field's json tag, exactly or
  under Unicode case folding. The tags here (name, type, value, ttl, records) are ASCII,
  and their letters are folded to only by ASCII letters and by U+017F, as in
  \<^const>\<open>ToUpper\<close>.
\<close>

definition foldName :: "string \<Rightarrow> string" where
  "foldName key = ToUpper key"

text \<open>
  Storing a JSON value in a field that holds \<open>cur\<close>: \<open>None\<close> is an
  \<^verbatim>\<open>UnmarshalTypeError\<close>, after which \<^verbatim>\<open>Unmarshal\<close> returns an error. \<^verbatim>\<open>null\<close> leaves a
  string, an int or a struct as it is and sets a slice to nil.
\<close>

fun store_string :: "json \<Rightarrow> string \<Rightarrow> string option" where
  "store_string (JString s) cur = Some s"
| "store_string JNull cur = Some cur"
| "store_string _ cur = None"

fun store_int :: "json \<Rightarrow> 64 word \<Rightarrow> 64 word option" where
  "store_int (JInt n) cur = (if - (2 ^ 63) \<le> n \<and> n < 2 ^ 63 then Some (word_of_int n) else None)"
| "store_int JNull cur = Some cur"
| "store_int _ cur = None"

fun unmarshal_fields :: "(string \<times> json) list \<Rightarrow> APIRecord \<Rightarrow> APIRecord option" where
  "unmarshal_fields [] r = Some r"
| "unmarshal_fields ((key, v) # members) r =
     (if foldName key = ''NAME'' then
        (case store_string v (api_Name r) of
           None \<Rightarrow> None | Some s \<Rightarrow> unmarshal_fields members (r\<lparr>api_Name := s\<rparr>))
      else if foldName key = ''TYPE'' then
        (case store_string v (api_Type r) of
           None \<Rightarrow> None | Some s \<Rightarrow> unmarshal_fields members (r\<lparr>api_Type := s\<rparr>))
      else if foldName key = ''VALUE'' then
        (case store_string v (api_Value r) of
           None \<Rightarrow> None | Some s \<Rightarrow> unmarshal_fields members (r\<lparr>api_Value := s\<rparr>))
      else if foldName key = ''TTL'' then
        (case store_int v (api_TTL r) of
           None \<Rightarrow> None | Some n \<Rightarrow> unmarshal_fields members (r\<lparr>api_TTL := n\<rparr>))
      else unmarshal_fields members r)"

fun unmarshal_APIRecord :: "json \<Rightarrow> APIRecord \<Rightarrow> APIRecord option" where
  "unmarshal_APIRecord (JObject members) r = unmarshal_fields members r"
| "unmarshal_APIRecord JNull r = Some r"
| "unmarshal_APIRecord _ r = None"

definition zero_APIRecord :: APIRecord where
  "zero_APIRecord = \<lparr>api_Name = [], api_Type = [], api_Value = [], api_TTL = 0\<rparr>"

text \<open>
  A JSON array into a slice: element \<open>i\<close> is decoded into the element the backing array
  holds at \<open>i\<close> (\<open>old\<close>, the zero value beyond it), and the slice gets the length of the
  JSON array.
\<close>

fun unmarshal_elements :: "json list \<Rightarrow> APIRecord list \<Rightarrow> APIRecord list option" where
  "unmarshal_elements [] old = Some []"
| "unmarshal_elements (j # js) old =
     (case unmarshal_APIRecord j (case old of [] \<Rightarrow> zero_APIRecord | r # _ \<Rightarrow> r) of
        None \<Rightarrow> None
      | Some r \<Rightarrow>
          (case unmarshal_elements js (tl old) of
             None \<Rightarrow> None
           | Some rs \<Rightarrow> Some (r # rs)))"

text \<open>
  The slice field \<^verbatim>\<open>Records\<close> is a pair: the elements of the slice and the elements of
  its backing array behind them. The pair matters only to an object that has the key
  more than once.
\<close>

fun store_slice ::
  "json \<Rightarrow> APIRecord list \<times> APIRecord list \<Rightarrow> (APIRecord list \<times> APIRecord list) option" where
  "store_slice (JArray js) (recs, spare) =
     (if js = [] then Some ([], [])
      else (case unmarshal_elements js (recs @ spare) of
              None \<Rightarrow> None
            | Some rs \<Rightarrow> Some (rs, drop (length js) (recs @ spare))))"
| "store_slice JNull (recs, spare) = Some ([], [])"
| "store_slice _ (recs, spare) = None"

fun unmarshal_response_fields ::
  "(string \<times> json) list \<Rightarrow> APIRecord list \<times> APIRecord list \<Rightarrow>
   (APIRecord list \<times> APIRecord list) option" where
  "unmarshal_response_fields [] st = Some st"
| "unmarshal_response_fields ((key, v) # members) st =
     (if foldName key = ''RECORDS'' then
        (case store_slice v st of
           None \<Rightarrow> None
         | Some st' \<Rightarrow> unmarshal_response_fields members st')
      else unmarshal_response_fields members st)"

text \<open>
  \<^verbatim>\<open>json.Unmarshal(bodyBytes, &apiResponse)\<close>, with \<^verbatim>\<open>apiResponse\<close> the zero value of the
  struct with the one field \<^verbatim>\<open>Records\<close>: \<open>None\<close> when it returns an error (also when the
  body is not JSON), and \<^verbatim>\<open>apiResponse.Records\<close> otherwise.
\<close>

fun Unmarshal_apiResponse :: "json option \<Rightarrow> APIRecord list option" where
  "Unmarshal_apiResponse None = None"
| "Unmarshal_apiResponse (Some (JObject members)) =
     map_option fst (unmarshal_response_fields members ([], []))"
| "Unmarshal_apiResponse (Some JNull) = Some []"
| "Unmarshal_apiResponse (Some _) = None"

text \<open>\<^verbatim>\<open>json.Unmarshal(bodyBytes, &apiRecords)\<close>, with \<^verbatim>\<open>apiRecords\<close> a nil slice.\<close>

fun Unmarshal_apiRecords :: "json option \<Rightarrow> APIRecord list option" where
  "Unmarshal_apiRecords None = None"
| "Unmarshal_apiRecords (Some (JArray js)) = unmarshal_elements js []"
| "Unmarshal_apiRecords (Some JNull) = Some []"
| "Unmarshal_apiRecords (Some _) = None"

subsection \<open>Go standard library: net/http\<close>

text \<open>
  A Go string in the text that \<^verbatim>\<open>json.Marshal\<close> writes: the encoder reads the string rune
  by rune with \<^verbatim>\<open>utf8.DecodeRuneInString\<close> and writes the escape of U+FFFD for every byte
  that does not start a valid encoding, so the text spells the string with U+FFFD (the bytes EF BF
  BD) in the place of each such byte. \<open>encoding_size s\<close> is the number of bytes of the
  valid encoding that \<open>s\<close> starts with, and 0 when it starts with none; a byte that is
  missing at the end of the string counts as 0, which no range accepts. In
  \<open>jsonStringFrom k s\<close>, \<open>k\<close> counts the bytes of the current rune still to copy.
\<close>

definition encoding_size :: "string \<Rightarrow> nat" where
  "encoding_size s =
     (let n = length s;
          b0 = (if 0 < n then byte (s ! 0) else 0);
          b1 = (if 1 < n then byte (s ! 1) else 0);
          b2 = (if 2 < n then byte (s ! 2) else 0);
          b3 = (if 3 < n then byte (s ! 3) else 0);
          lo = (if b0 = 224 then 160 else if b0 = 240 then 144 else 128);
          hi = (if b0 = 237 then 159 else if b0 = 244 then 143 else 191)
      in if n = 0 then 0
         else if b0 < 128 then 1
         else if 194 \<le> b0 \<and> b0 \<le> 223 then (if lo \<le> b1 \<and> b1 \<le> hi then 2 else 0)
         else if 224 \<le> b0 \<and> b0 \<le> 239 then
           (if lo \<le> b1 \<and> b1 \<le> hi \<and> 128 \<le> b2 \<and> b2 \<le> 191 then 3 else 0)
         else if 240 \<le> b0 \<and> b0 \<le> 244 then
           (if lo \<le> b1 \<and> b1 \<le> hi \<and> 128 \<le> b2 \<and> b2 \<le> 191 \<and> 128 \<le> b3 \<and> b3 \<le> 191
            then 4 else 0)
         else 0)"

fun jsonStringFrom :: "nat \<Rightarrow> string \<Rightarrow> string" where
  "jsonStringFrom k [] = []"
| "jsonStringFrom (Suc k) (c # cs) = c # jsonStringFrom k cs"
| "jsonStringFrom 0 (c # cs) =
     (if encoding_size (c # cs) = 0 then [CHR 0xEF, CHR 0xBF, CHR 0xBD] @ jsonStringFrom 0 cs
      else c # jsonStringFrom (encoding_size (c # cs) - 1) cs)"

definition jsonString :: "string \<Rightarrow> string" where
  "jsonString s = jsonStringFrom 0 s"

text \<open>
  A request as \<^verbatim>\<open>makeRequest\<close> builds it: the method and the string \<^verbatim>\<open>url\<close> that it
  gives to \<^verbatim>\<open>http.NewRequestWithContext\<close>, the header fields it sets and the body, which
  is the value that the text written by \<^verbatim>\<open>json.Marshal\<close> spells (the keys of a map in
  sorted order). \<open>url\<close> is the string of provider.go, before net/http reads it: net/url
  parses it and writes it again in the request that goes out, so that a space of that
  string is sent as \<^verbatim>\<open>%20\<close> and a question mark of it starts the query. A response: its
  status code, its status line and what \<^verbatim>\<open>io.ReadAll(resp.Body)\<close> gives, an error or the
  bytes, the bytes as the JSON value they spell (\<open>None\<close> when they are not JSON).
\<close>

record request =
  Method :: string
  url :: string
  Header :: "(string \<times> string) list"
  ReqBody :: "json option"

datatype body = BodyReadError string | BodyBytes "json option"

record response =
  StatusCode :: int
  Status :: string
  Body :: body

text \<open>
  The world outside: \<open>NewRequestError method url\<close> is the error of
  \<^verbatim>\<open>http.NewRequestWithContext\<close> (\<open>None\<close> when it builds the request) and \<open>Do\<close> is
  \<^verbatim>\<open>p.client.Do\<close>, the HTTP client with its 30 second timeout, on the request that
  net/http has built from the method, the string \<^verbatim>\<open>url\<close>, the header fields and the body.
\<close>

record transport =
  NewRequestError :: "string \<Rightarrow> string \<Rightarrow> string option"
  Do :: "request \<Rightarrow> string + response"

subsection \<open>provider.go: the provider and its requests\<close>

definition defaultMinTTL :: Duration where
  "defaultMinTTL = 120 * Second"

record Provider =
  APIToken :: string
  Endpoint :: string

text \<open>
  \<^verbatim>\<open>initClient\<close> creates the HTTP client when there is none, which is part of the
  transport here, and returns an error when the endpoint is empty.
\<close>

definition initClient :: "Provider \<Rightarrow> error option" where
  "initClient p = (if Endpoint p = [] then Some EndpointRequired else None)"

text \<open>
  Every operation returns the HTTP calls it made (the requests given to \<^verbatim>\<open>client.Do\<close>, in
  order) and its result. \<^verbatim>\<open>json.Marshal\<close> cannot fail on the bodies of this program
  (maps of strings and ints), so that branch of \<^verbatim>\<open>makeRequest\<close> has no counterpart. The
  header of the request is the list of the fields set, in the order they are set.
\<close>

definition makeRequest ::
  "transport \<Rightarrow> Provider \<Rightarrow> string \<Rightarrow> string \<Rightarrow> json option \<Rightarrow> request list \<times> (error + response)" where
  "makeRequest T p method path body =
     (case initClient p of
        Some err \<Rightarrow> ([], Inl err)
      | None \<Rightarrow>
        let url = Endpoint p @ path in
        (case NewRequestError T method url of
           Some err \<Rightarrow> ([], Inl (RequestCreationError err))
         | None \<Rightarrow>
             (let req = \<lparr>Method = method, url = url,
                         Header =
                           (if body \<noteq> None then [(''Content-Type'', ''application/json'')] else []) @
                           (if APIToken p \<noteq> [] then [(''Authorization'', ''Bearer '' @ APIToken p)]
                            else []),
                         ReqBody = body\<rparr>
              in ([req], case Do T req of Inl err \<Rightarrow> Inl (ClientError err) | Inr resp \<Rightarrow> Inr resp))))"

subsection \<open>provider.go: GetRecords\<close>

text \<open>The loop over the decoded records: it returns at the first conversion error.\<close>

fun convertRecordsFrom ::
  "'ip netip \<Rightarrow> 'ip Record list \<Rightarrow> APIRecord list \<Rightarrow> error + 'ip Record list" where
  "convertRecordsFrom N records [] = Inr records"
| "convertRecordsFrom N records (apiRecord # apiRecords) =
     (case convertAPIRecordToLibDNS N apiRecord of
        Inl err \<Rightarrow> Inl (RecordConversionError err)
      | Inr record \<Rightarrow> convertRecordsFrom N (records @ [record]) apiRecords)"

definition GetRecords ::
  "'ip netip \<Rightarrow> transport \<Rightarrow> Provider \<Rightarrow> string \<Rightarrow> request list \<times> (error + 'ip Record list)" where
  "GetRecords N T p zone =
     (case makeRequest T p ''GET'' (''/zones/'' @ zone @ ''/records'') None of
        (calls, Inl err) \<Rightarrow> (calls, Inl (GETRequestError err))
      | (calls, Inr resp) \<Rightarrow>
          (calls,
           if StatusCode resp \<noteq> 200 then Inl (APIError (Status resp))
           else (case Body resp of
                   BodyReadError err \<Rightarrow> Inl (BodyReadingError err)
                 | BodyBytes bodyBytes \<Rightarrow>
                     (case Unmarshal_apiResponse bodyBytes of
                        None \<Rightarrow>
                          (case Unmarshal_apiRecords bodyBytes of
                             None \<Rightarrow> Inl JSONDecodingError
                           | Some apiRecords \<Rightarrow> convertRecordsFrom N [] apiRecords)
                      | Some apiRecords \<Rightarrow> convertRecordsFrom N [] apiRecords))))"

subsection \<open>provider.go: AppendRecords, SetRecords, DeleteRecords\<close>

text \<open>
  The three operations build the request body with the same loop; AppendRecords and
  SetRecords raise a TTL below \<^const>\<open>defaultMinTTL\<close> to it (\<open>enforceMinTTL\<close>), DeleteRecords
  does not. The keys are in the order \<^verbatim>\<open>json.Marshal\<close> writes them, the strings as it
  writes them.
\<close>

definition apiRecord_of :: "'ip netip \<Rightarrow> bool \<Rightarrow> 'ip Record \<Rightarrow> json" where
  "apiRecord_of N enforceMinTTL record =
     (let rr = RR_of N record;
          ttl = (if enforceMinTTL \<and> sint (TTL rr) < sint defaultMinTTL then defaultMinTTL
                 else TTL rr)
      in JObject [(''data'', JString (jsonString (Data rr))),
                  (''name'', JString (jsonString (Name rr))),
                  (''ttl'', JInt (int_of_float64 (Seconds ttl))),
                  (''type'', JString (jsonString (Type rr)))])"

fun apiRecordsFrom :: "'ip netip \<Rightarrow> bool \<Rightarrow> json list \<Rightarrow> 'ip Record list \<Rightarrow> json list" where
  "apiRecordsFrom N enforceMinTTL apiRecords [] = apiRecords"
| "apiRecordsFrom N enforceMinTTL apiRecords (record # records) =
     apiRecordsFrom N enforceMinTTL (apiRecords @ [apiRecord_of N enforceMinTTL record]) records"

definition requestBody :: "'ip netip \<Rightarrow> bool \<Rightarrow> 'ip Record list \<Rightarrow> json" where
  "requestBody N enforceMinTTL records =
     JObject [(''records'', JArray (apiRecordsFrom N enforceMinTTL [] records))]"

definition AppendRecords ::
  "'ip netip \<Rightarrow> transport \<Rightarrow> Provider \<Rightarrow> string \<Rightarrow> 'ip Record list \<Rightarrow>
   request list \<times> (error + 'ip Record list)" where
  "AppendRecords N T p zone records =
     (if length records = 0 then ([], Inr [])
      else (case makeRequest T p ''POST'' (''/zones/'' @ zone @ ''/records'')
                   (Some (requestBody N True records)) of
              (calls, Inl err) \<Rightarrow> (calls, Inl (POSTRequestError err))
            | (calls, Inr resp) \<Rightarrow>
                (calls,
                 if StatusCode resp \<noteq> 201 \<and> StatusCode resp \<noteq> 200
                 then Inl (APIErrorDuringAddition (Status resp))
                 else Inr (convertToSpecificTypes N records))))"

definition SetRecords ::
  "'ip netip \<Rightarrow> transport \<Rightarrow> Provider \<Rightarrow> string \<Rightarrow> 'ip Record list \<Rightarrow>
   request list \<times> (error + 'ip Record list)" where
  "SetRecords N T p zone records =
     (if length records = 0 then ([], Inr [])
      else (case makeRequest T p ''PUT'' (''/zones/'' @ zone @ ''/records'')
                   (Some (requestBody N True records)) of
              (calls, Inl err) \<Rightarrow> (calls, Inl (PUTRequestError err))
            | (calls, Inr resp) \<Rightarrow>
                (calls,
                 if StatusCode resp \<noteq> 200 then Inl (APIErrorDuringUpdate (Status resp))
                 else Inr (convertToSpecificTypes N records))))"

definition DeleteRecords ::
  "'ip netip \<Rightarrow> transport \<Rightarrow> Provider \<Rightarrow> string \<Rightarrow> 'ip Record list \<Rightarrow>
   request list \<times> (error + 'ip Record list)" where
  "DeleteRecords N T p zone records =
     (if length records = 0 then ([], Inr [])
      else (case makeRequest T p ''DELETE'' (''/zones/'' @ zone @ ''/records'')
                   (Some (requestBody N False records)) of
              (calls, Inl err) \<Rightarrow> (calls, Inl (DELETERequestError err))
            | (calls, Inr resp) \<Rightarrow>
                (calls,
                 if StatusCode resp = 200 \<or> StatusCode resp = 204
                 then Inr (convertToSpecificTypes N records)
                 else Inr [])))"

subsection \<open>Notions of the claims\<close>

text \<open>
  A token that is an unsigned 16-bit integer: decimal digits and nothing else, with a
  value below \<open>2\<^sup>1\<^sup>6\<close>.
\<close>

definition uint16_literal :: "string \<Rightarrow> bool" where
  "uint16_literal s = (s \<noteq> [] \<and> list_all is_digit s \<and> decimal s < 2 ^ 16)"



text \<open>
  The path-escaped form of a zone, as \<^verbatim>\<open>url.PathEscape\<close> of net/url computes it: every
  byte but the letters, the digits and \<^verbatim>\<open>-_.~$&+:=@\<close> becomes \<^verbatim>\<open>%XX\<close>. provider.go does not
  call it.
\<close>

definition shouldEscape :: "char \<Rightarrow> bool" where
  "shouldEscape c =
     (\<not> ((97 \<le> byte c \<and> byte c \<le> 122) \<or> (65 \<le> byte c \<and> byte c \<le> 90) \<or>
         (48 \<le> byte c \<and> byte c \<le> 57) \<or> c \<in> set ''-_.~$&+:=@''))"

definition PathEscape :: "string \<Rightarrow> string" where
  "PathEscape s =
     concat (map (\<lambda>c. if shouldEscape c
                       then [CHR ''%'', ''0123456789ABCDEF'' ! (byte c div 16),
                             ''0123456789ABCDEF'' ! (byte c mod 16)]
                       else [c]) s)"

subsection \<open>Instances for the examples\<close>

text \<open>
  An instance of the net/netip parameters: the IPv4 addresses in dotted decimal form,
  four fields from 0 to 255 without leading zeros, as \<^verbatim>\<open>netip.ParseAddr\<close> reads them and
  \<^verbatim>\<open>Addr.String\<close> writes them.
\<close>

fun splitDots :: "string \<Rightarrow> string \<Rightarrow> string list" where
  "splitDots cur [] = [cur]"
| "splitDots cur (c # cs) =
     (if c = CHR ''.'' then cur # splitDots [] cs else splitDots (cur @ [c]) cs)"

definition octet :: "string \<Rightarrow> nat option" where
  "octet s =
     (if s \<noteq> [] \<and> list_all is_digit s \<and> (length s = 1 \<or> hd s \<noteq> CHR ''0'') \<and> decimal s \<le> 255
      then Some (decimal s) else None)"

definition ParseAddr4 :: "string \<Rightarrow> nat list option" where
  "ParseAddr4 s =
     (let fs = map octet (splitDots [] s) in
      if length fs = 4 \<and> list_all (\<lambda>f. f \<noteq> None) fs then Some (map the fs) else None)"

definition ipv4 :: "nat list netip" where
  "ipv4 = \<lparr>ParseAddr = ParseAddr4, AddrString = (\<lambda>ip. Join (map digits_of ip) ''.''),
           Is6 = (\<lambda>ip. False)\<rparr>"

text \<open>A server that answers every request with \<open>resp\<close>, and a configured provider.\<close>

definition answering :: "response \<Rightarrow> transport" where
  "answering resp = \<lparr>NewRequestError = (\<lambda>method url. None), Do = (\<lambda>req. Inr resp)\<rparr>"

definition example_provider :: Provider where
  "example_provider = \<lparr>APIToken = ''secret'', Endpoint = ''https://dns.example/api''\<rparr>"

section \<open>Properties\<close>

declare digits_of.simps [simp del]


subsection \<open>The loops are maps\<close>

lemma convertToSpecificTypesFrom_map:
  "convertToSpecificTypesFrom N result records = result @ map (convertToSpecificType N) records"
  by (induction records arbitrary: result) simp_all

lemma convertToSpecificTypes_map:
  "convertToSpecificTypes N records = map (convertToSpecificType N) records"
  by (simp add: convertToSpecificTypes_def convertToSpecificTypesFrom_map)


subsection \<open>The HTTP calls of the operations\<close>

lemma makeRequest_call:
  assumes "makeRequest T p method path body = ([req], r)"
  shows "Endpoint p \<noteq> [] \<and> Method req = method \<and> url req = Endpoint p @ path \<and>
         ReqBody req = body \<and>
         r = (case Do T req of Inl err \<Rightarrow> Inl (ClientError err) | Inr resp \<Rightarrow> Inr resp)"
  using assms by (auto simp: makeRequest_def initClient_def Let_def split: if_splits option.splits)

lemma makeRequest_URL:
  "req \<in> set (fst (makeRequest T p method path body)) \<Longrightarrow> url req = Endpoint p @ path"
  by (auto simp: makeRequest_def initClient_def Let_def split: if_splits option.splits)

lemma GetRecords_calls:
  "fst (GetRecords N T p zone) =
   fst (makeRequest T p ''GET'' (''/zones/'' @ zone @ ''/records'') None)"
  by (simp add: GetRecords_def split: prod.splits sum.splits)

lemma AppendRecords_calls:
  "fst (AppendRecords N T p zone records) =
     (if records = [] then []
      else fst (makeRequest T p ''POST'' (''/zones/'' @ zone @ ''/records'')
                  (Some (requestBody N True records))))"
  by (simp add: AppendRecords_def split: prod.splits sum.splits)

lemma SetRecords_calls:
  "fst (SetRecords N T p zone records) =
     (if records = [] then []
      else fst (makeRequest T p ''PUT'' (''/zones/'' @ zone @ ''/records'')
                  (Some (requestBody N True records))))"
  by (simp add: SetRecords_def split: prod.splits sum.splits)

lemma DeleteRecords_calls:
  "fst (DeleteRecords N T p zone records) =
     (if records = [] then []
      else fst (makeRequest T p ''DELETE'' (''/zones/'' @ zone @ ''/records'')
                  (Some (requestBody N False records))))"
  by (simp add: DeleteRecords_def split: prod.splits sum.splits)


subsection \<open>Decimal numerals and the fields of an MX value\<close>
















subsection \<open>Re-typing\<close>

lemma ToUpper_consts:
  "ToUpper ''A'' = ''A''" "ToUpper ''AAAA'' = ''AAAA''" "ToUpper ''TXT'' = ''TXT''"
  "ToUpper ''CNAME'' = ''CNAME''" "ToUpper ''MX'' = ''MX''" "ToUpper ''NS'' = ''NS''"
  by (simp_all add: upper_byte_def byte_def)






subsection \<open>Decoding the response\<close>

lemma GetRecords_answered:
  assumes "fst (GetRecords N T p zone) = [req]" and "Do T req = Inr resp"
  shows "snd (GetRecords N T p zone) =
     (if StatusCode resp \<noteq> 200 then Inl (APIError (Status resp))
      else (case Body resp of
              BodyReadError err \<Rightarrow> Inl (BodyReadingError err)
            | BodyBytes bodyBytes \<Rightarrow>
                (case Unmarshal_apiResponse bodyBytes of
                   None \<Rightarrow>
                     (case Unmarshal_apiRecords bodyBytes of
                        None \<Rightarrow> Inl JSONDecodingError
                      | Some apiRecords \<Rightarrow> convertRecordsFrom N [] apiRecords)
                 | Some apiRecords \<Rightarrow> convertRecordsFrom N [] apiRecords)))"
proof -
  obtain calls r where mr:
    "makeRequest T p ''GET'' (''/zones/'' @ zone @ ''/records'') None = (calls, r)"
    by (cases "makeRequest T p ''GET'' (''/zones/'' @ zone @ ''/records'') None")
  then have "calls = [req]" using assms(1) by (simp add: GetRecords_calls)
  with mr makeRequest_call [of T p "''GET''" "''/zones/'' @ zone @ ''/records''" None req r] assms(2)
  have "r = Inr resp" by simp
  with mr show ?thesis by (simp add: GetRecords_def)
qed

lemma foldName_records: "foldName ''records'' = ''RECORDS''"
  by (simp add: foldName_def upper_byte_def byte_def)

lemma Unmarshal_apiResponse_records:
  "Unmarshal_apiResponse (Some (JObject [(''records'', JArray js)])) = unmarshal_elements js []"
  by (cases "unmarshal_elements js []") (auto simp: foldName_records)

lemma convertAPIRecordToLibDNS_invalid:
  "(ToUpper (api_Type a) = ''A'' \<or> ToUpper (api_Type a) = ''AAAA'') \<and> ParseAddr N (api_Value a) = None
   \<Longrightarrow> convertAPIRecordToLibDNS N a = Inl (InvalidIPAddress (api_Value a))"
  by (auto simp: convertAPIRecordToLibDNS_def Let_def)

lemma convertAPIRecordToLibDNS_Inl:
  "convertAPIRecordToLibDNS N a = Inl e \<Longrightarrow>
   e = InvalidIPAddress (api_Value a) \<and>
   (ToUpper (api_Type a) = ''A'' \<or> ToUpper (api_Type a) = ''AAAA'') \<and> ParseAddr N (api_Value a) = None"
  by (auto simp: convertAPIRecordToLibDNS_def Let_def split: if_splits option.splits prod.splits)

lemma convertRecordsFrom_invalid:
  assumes "a \<in> set apiRecords"
    and "ToUpper (api_Type a) = ''A'' \<or> ToUpper (api_Type a) = ''AAAA''"
    and "ParseAddr N (api_Value a) = None"
  shows "\<exists>b \<in> set apiRecords.
           (ToUpper (api_Type b) = ''A'' \<or> ToUpper (api_Type b) = ''AAAA'') \<and>
           ParseAddr N (api_Value b) = None \<and>
           convertRecordsFrom N acc apiRecords = Inl (RecordConversionError (InvalidIPAddress (api_Value b)))"
  using assms
proof (induction apiRecords arbitrary: acc)
  case Nil
  then show ?case by simp
next
  case (Cons x xs)
  show ?case
  proof (cases "convertAPIRecordToLibDNS N x")
    case (Inl e)
    from convertAPIRecordToLibDNS_Inl [OF Inl] Inl show ?thesis by auto
  next
    case (Inr r)
    then have "a \<noteq> x" using Cons.prems convertAPIRecordToLibDNS_invalid [of a N] by auto
    then have "a \<in> set xs" using Cons.prems by simp
    from Cons.IH [OF this Cons.prems(2,3), of "acc @ [r]"] Inr show ?thesis by auto
  qed
qed

lemma unmarshal_response_fields_no_records:
  "''RECORDS'' \<notin> set (map (foldName \<circ> fst) members) \<Longrightarrow>
   unmarshal_response_fields members st = Some st"
  by (induction members arbitrary: st) auto

lemma fallback_only_array:
  "Unmarshal_apiResponse b = None \<Longrightarrow> Unmarshal_apiRecords b = Some rs \<Longrightarrow> \<exists>js. b = Some (JArray js)"
  by (cases "(b)" rule: Unmarshal_apiRecords.cases) auto

lemmas json_eval = foldName_def upper_byte_def byte_def zero_APIRecord_def

lemma example_GET:
  "fst (GetRecords ipv4 (answering resp) example_provider ''example.com'') =
     [\<lparr>Method = ''GET'', url = ''https://dns.example/api/zones/example.com/records'',
       Header = [(''Authorization'', ''Bearer secret'')], ReqBody = None\<rparr>]"
  by (simp add: GetRecords_calls makeRequest_def initClient_def answering_def example_provider_def)

lemma Do_answering: "Do (answering resp) req = Inr resp"
  by (simp add: answering_def)

lemma makeRequest_sent:
  assumes "Endpoint p \<noteq> []" and "NewRequestError T m (Endpoint p @ path) = None"
  shows "\<exists>req. makeRequest T p m path body =
           ([req], case Do T req of Inl err \<Rightarrow> Inl (ClientError err) | Inr resp \<Rightarrow> Inr resp) \<and>
         Method req = m \<and> url req = Endpoint p @ path \<and> ReqBody req = body"
  using assms by (simp add: makeRequest_def initClient_def Let_def)

lemma GetRecords_sent:
  assumes "Endpoint p \<noteq> []"
    and "NewRequestError T ''GET'' (Endpoint p @ ''/zones/'' @ zone @ ''/records'') = None"
  shows "\<exists>req. fst (GetRecords N T p zone) = [req] \<and> Method req = ''GET'' \<and>
           url req = Endpoint p @ ''/zones/'' @ zone @ ''/records'' \<and> ReqBody req = None \<and>
           (\<forall>resp. Do T req = Inr resp \<and> StatusCode resp \<noteq> 200 \<longrightarrow>
              snd (GetRecords N T p zone) = Inl (APIError (Status resp)))"
proof -
  from makeRequest_sent [OF assms, of None]
  obtain req where "makeRequest T p ''GET'' (''/zones/'' @ zone @ ''/records'') None =
        ([req], case Do T req of Inl err \<Rightarrow> Inl (ClientError err) | Inr resp \<Rightarrow> Inr resp)"
      and "Method req = ''GET''" and "url req = Endpoint p @ ''/zones/'' @ zone @ ''/records''"
      and "ReqBody req = None"
    by auto
  then show ?thesis
    by (intro exI [of _ req]) (auto simp: GetRecords_def split: sum.splits)
qed

lemma AppendRecords_sent:
  assumes "records \<noteq> []" and "Endpoint p \<noteq> []"
    and "NewRequestError T ''POST'' (Endpoint p @ ''/zones/'' @ zone @ ''/records'') = None"
  shows "\<exists>req. fst (AppendRecords N T p zone records) = [req] \<and> Method req = ''POST'' \<and>
           url req = Endpoint p @ ''/zones/'' @ zone @ ''/records'' \<and>
           ReqBody req = Some (requestBody N True records) \<and>
           snd (AppendRecords N T p zone records) =
             (case Do T req of
                Inl err \<Rightarrow> Inl (POSTRequestError (ClientError err))
              | Inr resp \<Rightarrow>
                  if StatusCode resp = 200 \<or> StatusCode resp = 201
                  then Inr (convertToSpecificTypes N records)
                  else Inl (APIErrorDuringAddition (Status resp)))"
proof -
  from makeRequest_sent [OF assms(2,3), of "Some (requestBody N True records)"]
  obtain req where "makeRequest T p ''POST'' (''/zones/'' @ zone @ ''/records'')
          (Some (requestBody N True records)) =
        ([req], case Do T req of Inl err \<Rightarrow> Inl (ClientError err) | Inr resp \<Rightarrow> Inr resp)"
      and "Method req = ''POST''" and "url req = Endpoint p @ ''/zones/'' @ zone @ ''/records''"
      and "ReqBody req = Some (requestBody N True records)"
    by auto
  then show ?thesis using assms(1)
    by (intro exI [of _ req]) (auto simp: AppendRecords_def split: sum.splits)
qed

lemma SetRecords_sent:
  assumes "records \<noteq> []" and "Endpoint p \<noteq> []"
    and "NewRequestError T ''PUT'' (Endpoint p @ ''/zones/'' @ zone @ ''/records'') = None"
  shows "\<exists>req. fst (SetRecords N T p zone records) = [req] \<and> Method req = ''PUT'' \<and>
           url req = Endpoint p @ ''/zones/'' @ zone @ ''/records'' \<and>
           ReqBody req = Some (requestBody N True records) \<and>
           snd (SetRecords N T p zone records) =
             (case Do T req of
                Inl err \<Rightarrow> Inl (PUTRequestError (ClientError err))
              | Inr resp \<Rightarrow>
                  if StatusCode resp = 200 then Inr (convertToSpecificTypes N records)
                  else Inl (APIErrorDuringUpdate (Status resp)))"
proof -
  from makeRequest_sent [OF assms(2,3), of "Some (requestBody N True records)"]
  obtain req where "makeRequest T p ''PUT'' (''/zones/'' @ zone @ ''/records'')
          (Some (requestBody N True records)) =
        ([req], case Do T req of Inl err \<Rightarrow> Inl (ClientError err) | Inr resp \<Rightarrow> Inr resp)"
      and "Method req = ''PUT''" and "url req = Endpoint p @ ''/zones/'' @ zone @ ''/records''"
      and "ReqBody req = Some (requestBody N True records)"
    by auto
  then show ?thesis using assms(1)
    by (intro exI [of _ req]) (auto simp: SetRecords_def split: sum.splits)
qed

lemma DeleteRecords_sent:
  assumes "records \<noteq> []" and "Endpoint p \<noteq> []"
    and "NewRequestError T ''DELETE'' (Endpoint p @ ''/zones/'' @ zone @ ''/records'') = None"
  shows "\<exists>req. fst (DeleteRecords N T p zone records) = [req] \<and> Method req = ''DELETE'' \<and>
           url req = Endpoint p @ ''/zones/'' @ zone @ ''/records'' \<and>
           ReqBody req = Some (requestBody N False records) \<and>
           snd (DeleteRecords N T p zone records) =
             (case Do T req of
                Inl err \<Rightarrow> Inl (DELETERequestError (ClientError err))
              | Inr resp \<Rightarrow>
                  if StatusCode resp = 200 \<or> StatusCode resp = 204
                  then Inr (convertToSpecificTypes N records)
                  else Inr [])"
proof -
  from makeRequest_sent [OF assms(2,3), of "Some (requestBody N False records)"]
  obtain req where "makeRequest T p ''DELETE'' (''/zones/'' @ zone @ ''/records'')
          (Some (requestBody N False records)) =
        ([req], case Do T req of Inl err \<Rightarrow> Inl (ClientError err) | Inr resp \<Rightarrow> Inr resp)"
      and "Method req = ''DELETE''" and "url req = Endpoint p @ ''/zones/'' @ zone @ ''/records''"
      and "ReqBody req = Some (requestBody N False records)"
    by auto
  then show ?thesis using assms(1)
    by (intro exI [of _ req]) (auto simp: DeleteRecords_def split: sum.splits)
qed

subsection \<open>Strings in a request body\<close>



subsection \<open>Durations in seconds\<close>

















subsection \<open>What the MX parse reads\<close>

text \<open>
  A field of \<^const>\<open>Fields\<close> is not empty and starts with no white space, so \<^const>\<open>parseUint16\<close>
  reads its leading digits: the preference is taken from the digits the first field
  starts with, whatever follows them in that field.
\<close>

lemma space_width_prefix:
  assumes "space_width (f @ r) = 0" and "f \<noteq> []"
  shows "space_width f = 0"
proof (cases f)
  case Nil
  then show ?thesis using assms by simp
next
  case f1: (Cons a f')
  show ?thesis
  proof (cases f')
    case Nil
    then show ?thesis using assms f1
      by (cases r) (auto simp: space_width_def split: if_splits list.splits)
  next
    case f2: (Cons b f'')
    show ?thesis
    proof (cases f'')
      case Nil
      then show ?thesis using assms f1 f2
        by (cases r) (auto simp: space_width_def split: if_splits list.splits)
    next
      case (Cons c f''')
      then show ?thesis using assms f1 f2
        by (auto simp: space_width_def split: if_splits list.splits)
    qed
  qed
qed

lemma FieldsFrom_fields:
  assumes "f \<in> set (FieldsFrom k cur s)"
    and "0 < k \<longrightarrow> cur = None"
    and "\<forall>c. cur = Some c \<longrightarrow> c \<noteq> [] \<and> space_width (c @ s) = 0"
  shows "f \<noteq> [] \<and> space_width f = 0"
  using assms
proof (induction k cur s rule: FieldsFrom.induct)
  case (1 k cur)
  then show ?case by (cases cur) auto
next
  case (2 k cur c cs)
  then show ?case by simp
next
  case (3 cur c cs)
  show ?case
  proof (cases "0 < space_width (c # cs)")
    case True
    show ?thesis
    proof (cases cur)
      case None
      then show ?thesis using 3 True by simp
    next
      case (Some f0)
      then have f0: "f0 \<noteq> []" "space_width (f0 @ c # cs) = 0" using "3.prems"(3) by simp_all
      then have w: "space_width f0 = 0" using space_width_prefix by blast
      from "3.prems"(1) True Some
      have "f = f0 \<or> f \<in> set (FieldsFrom (space_width (c # cs) - 1) None cs)" by simp
      then show ?thesis
      proof
        assume "f = f0"
        then show ?thesis using f0 w by simp
      next
        assume "f \<in> set (FieldsFrom (space_width (c # cs) - 1) None cs)"
        then show ?thesis using "3.IH"(2) [OF True Some] by simp
      qed
    qed
  next
    case False
    then have z: "space_width (c # cs) = 0" by simp
    have "f \<in> set (FieldsFrom 0 (Some ((case cur of None \<Rightarrow> [] | Some f \<Rightarrow> f) @ [c])) cs)"
      using "3.prems"(1) False by simp
    moreover have "space_width (((case cur of None \<Rightarrow> [] | Some f \<Rightarrow> f) @ [c]) @ cs) = 0"
      using z "3.prems"(3) by (cases cur) simp_all
    ultimately show ?thesis using "3.IH"(3) [OF False] by simp
  qed
qed

lemma Fields_token: "f \<in> set (Fields v) \<Longrightarrow> f \<noteq> [] \<and> space_width f = 0"
  using FieldsFrom_fields [of f 0 None v] by (simp add: Fields_def)

lemma SkipSpace_token: "f \<noteq> [] \<Longrightarrow> space_width f = 0 \<Longrightarrow> SkipSpace 0 f = Inr f"
  by (cases f) (auto simp: space_width_def split: if_splits)

lemma list_all_takeWhile: "list_all P (takeWhile P xs)"
  by (induction xs) simp_all

lemma parseUint16_token:
  assumes "f \<noteq> []" and "space_width f = 0"
  shows "parseUint16 f =
     (if takeWhile is_digit f = [] then Inl ExpectedInteger
      else if 2 ^ 64 \<le> decimal (takeWhile is_digit f) then Inl ValueOutOfRange
      else if 2 ^ 16 \<le> decimal (takeWhile is_digit f) then Inl UnsignedIntegerOverflow
      else Inr (of_nat (decimal (takeWhile is_digit f))))"
  using assms by (simp add: parseUint16_def scanUint16_def SkipSpace_token Let_def)

lemma mx_parts_characterised:
  "mx_parts v =
     (if 2 \<le> length (Fields v) \<and> uint16_literal (takeWhile is_digit (hd (Fields v)))
      then (of_nat (decimal (takeWhile is_digit (hd (Fields v)))), Join (tl (Fields v)) '' '')
      else (10, v))"
proof (cases "2 \<le> length (Fields v)")
  case False
  then show ?thesis by (simp add: mx_parts_def)
next
  case True
  then have "hd (Fields v) \<in> set (Fields v)" by (cases "Fields v") simp_all
  then have t: "hd (Fields v) \<noteq> []" "space_width (hd (Fields v)) = 0"
    using Fields_token by blast+
  show ?thesis
    using True
    by (simp add: mx_parts_def Let_def parseUint16_token [OF t] uint16_literal_def
        list_all_takeWhile not_le)
qed

section \<open>The claims\<close>

text \<open>
  Claim C1. Decoding and re-typing at the MX value \<^verbatim>\<open>5x mail.example.com\<close>: the first of
  its two tokens, \<^verbatim>\<open>5x\<close>, is not an unsigned 16-bit integer, so the claim gives preference
  10 and the whole value as target; \<^verbatim>\<open>parseUint16\<close> reads the digit and reports no error,
  and both functions return preference 5 and the target \<^verbatim>\<open>mail.example.com\<close>.
\<close>

theorem C1_mx_digit_prefix:
  "Fields ''5x mail.example.com'' = [''5x'', ''mail.example.com''] \<and>
   \<not> uint16_literal ''5x'' \<and>
   parseUint16 ''5x'' = Inr 5 \<and>
   convertAPIRecordToLibDNS ipv4
       \<lparr>api_Name = ''@'', api_Type = ''MX'', api_Value = ''5x mail.example.com'', api_TTL = 600\<rparr> =
     Inr (MX ''@'' 600000000000 5 ''mail.example.com'') \<and>
   convertToSpecificTypes ipv4
       [Generic \<lparr>Name = ''@'', TTL = 600000000000, Type = ''MX'', Data = ''5x mail.example.com''\<rparr>] =
     [MX ''@'' 600000000000 5 ''mail.example.com'']"
proof -
  have f: "Fields ''5x mail.example.com'' = [''5x'', ''mail.example.com'']"
    by (simp add: Fields_def space_width_def byte_def)
  have p: "parseUint16 ''5x'' = Inr 5"
    by (simp add: parseUint16_def scanUint16_def space_width_def byte_def is_digit_def decimal_def)
  have m: "mx_parts ''5x mail.example.com'' = (5, ''mail.example.com'')"
    unfolding mx_parts_characterised f
    by (simp add: uint16_literal_def is_digit_def decimal_def byte_def)
  have u: "\<not> uint16_literal ''5x''"
    by (simp add: uint16_literal_def is_digit_def byte_def)
  show ?thesis
    using f p u
    by (simp add: convertAPIRecordToLibDNS_def convertToSpecificTypes_map convertToSpecificType_def
        m ToUpper_consts Second_def del: ToUpper.simps)
qed






text \<open>
  Claim C5. GetRecords, once the server has answered 200 with a body: the body is first
  decoded as the object with the records field; only when that fails is it decoded as a
  bare array; when both fail the result is the decoding error. A list of elements gives
  the same result as the records member of an object and as a bare array.
\<close>

theorem C5_decode_order:
  assumes "fst (GetRecords N T p zone) = [req]" and "Do T req = Inr resp"
    and "StatusCode resp = 200" and "Body resp = BodyBytes bodyBytes"
  shows "snd (GetRecords N T p zone) =
           (case Unmarshal_apiResponse bodyBytes of
              Some apiRecords \<Rightarrow> convertRecordsFrom N [] apiRecords
            | None \<Rightarrow>
                (case Unmarshal_apiRecords bodyBytes of
                   Some apiRecords \<Rightarrow> convertRecordsFrom N [] apiRecords
                 | None \<Rightarrow> Inl JSONDecodingError)) \<and>
         (\<forall>js. bodyBytes = Some (JObject [(''records'', JArray js)]) \<or> bodyBytes = Some (JArray js) \<longrightarrow>
            snd (GetRecords N T p zone) =
              (case unmarshal_elements js [] of
                 Some apiRecords \<Rightarrow> convertRecordsFrom N [] apiRecords
               | None \<Rightarrow> Inl JSONDecodingError))"
proof -
  have r: "snd (GetRecords N T p zone) =
           (case Unmarshal_apiResponse bodyBytes of
              Some apiRecords \<Rightarrow> convertRecordsFrom N [] apiRecords
            | None \<Rightarrow>
                (case Unmarshal_apiRecords bodyBytes of
                   Some apiRecords \<Rightarrow> convertRecordsFrom N [] apiRecords
                 | None \<Rightarrow> Inl JSONDecodingError))"
    using GetRecords_answered [OF assms(1,2)] assms(3,4)
    by (simp split: option.splits)
  have "snd (GetRecords N T p zone) =
              (case unmarshal_elements js [] of
                 Some apiRecords \<Rightarrow> convertRecordsFrom N [] apiRecords
               | None \<Rightarrow> Inl JSONDecodingError)"
    if "bodyBytes = Some (JObject [(''records'', JArray js)]) \<or> bodyBytes = Some (JArray js)" for js
    using that
  proof
    assume "bodyBytes = Some (JObject [(''records'', JArray js)])"
    then have a: "Unmarshal_apiResponse bodyBytes = unmarshal_elements js []"
      and b: "Unmarshal_apiRecords bodyBytes = None"
      by (simp_all only: Unmarshal_apiResponse_records Unmarshal_apiRecords.simps)
    show ?thesis unfolding r a b by (simp split: option.splits)
  next
    assume "bodyBytes = Some (JArray js)"
    then show ?thesis unfolding r by (simp split: option.splits)
  qed
  with r show ?thesis by blast
qed

theorem C5_decode_order_witness:
  "snd (GetRecords ipv4
     (answering \<lparr>StatusCode = 200, Status = ''200 OK'',
        Body = BodyBytes (Some (JObject [(''records'', JArray [JObject [(''name'', JString ''a''),
          (''type'', JString ''TXT''), (''value'', JString ''x''), (''ttl'', JInt 60)]])]))\<rparr>)
     example_provider ''example.com'') = Inr [TXT ''a'' 60000000000 ''x''] \<and>
   snd (GetRecords ipv4
     (answering \<lparr>StatusCode = 200, Status = ''200 OK'',
        Body = BodyBytes (Some (JArray [JObject [(''name'', JString ''a''),
          (''type'', JString ''TXT''), (''value'', JString ''x''), (''ttl'', JInt 60)]]))\<rparr>)
     example_provider ''example.com'') = Inr [TXT ''a'' 60000000000 ''x'']"
proof -
  let ?js = "[JObject [(''name'', JString ''a''),
          (''type'', JString ''TXT''), (''value'', JString ''x''), (''ttl'', JInt 60)]]"
  let ?decoded = "case unmarshal_elements ?js [] of
      Some apiRecords \<Rightarrow> convertRecordsFrom ipv4 [] apiRecords
    | None \<Rightarrow> Inl JSONDecodingError"
  have e: "unmarshal_elements ?js [] =
      Some [\<lparr>api_Name = ''a'', api_Type = ''TXT'', api_Value = ''x'', api_TTL = 60\<rparr>]"
    by (simp add: json_eval)
  have c: "convertRecordsFrom ipv4 []
      [\<lparr>api_Name = ''a'', api_Type = ''TXT'', api_Value = ''x'', api_TTL = 60\<rparr>] =
      Inr [TXT ''a'' 60000000000 ''x'']"
    by (simp add: convertAPIRecordToLibDNS_def ToUpper_consts Second_def del: ToUpper.simps)
  have d: "?decoded = Inr [TXT ''a'' 60000000000 ''x'']"
    unfolding e using c by simp
  have o: "snd (GetRecords ipv4
     (answering \<lparr>StatusCode = 200, Status = ''200 OK'',
        Body = BodyBytes (Some (JObject [(''records'', JArray ?js)]))\<rparr>)
     example_provider ''example.com'') = ?decoded"
    by (rule C5_decode_order [OF example_GET Do_answering, THEN conjunct2, rule_format,
          where js = "?js" and bodyBytes = "Some (JObject [(''records'', JArray ?js)])"])
      simp_all
  have a: "snd (GetRecords ipv4
     (answering \<lparr>StatusCode = 200, Status = ''200 OK'', Body = BodyBytes (Some (JArray ?js))\<rparr>)
     example_provider ''example.com'') = ?decoded"
    by (rule C5_decode_order [OF example_GET Do_answering, THEN conjunct2, rule_format,
          where js = "?js" and bodyBytes = "Some (JArray ?js)"])
      simp_all
  show ?thesis unfolding o a d by simp
qed

text \<open>
  Claim C6. When the decoded response holds a record of type A or AAAA (in any case of
  letters) whose value is no IP address, GetRecords returns the conversion error of such
  a record and no records, whatever the other records of the response are.
\<close>

theorem C6_invalid_ip_aborts:
  assumes "fst (GetRecords N T p zone) = [req]" and "Do T req = Inr resp"
    and "StatusCode resp = 200" and "Body resp = BodyBytes bodyBytes"
    and "Unmarshal_apiResponse bodyBytes = Some apiRecords \<or>
         Unmarshal_apiResponse bodyBytes = None \<and> Unmarshal_apiRecords bodyBytes = Some apiRecords"
    and "apiRecord \<in> set apiRecords"
    and "ToUpper (api_Type apiRecord) = ''A'' \<or> ToUpper (api_Type apiRecord) = ''AAAA''"
    and "ParseAddr N (api_Value apiRecord) = None"
  shows "\<exists>bad \<in> set apiRecords.
           (ToUpper (api_Type bad) = ''A'' \<or> ToUpper (api_Type bad) = ''AAAA'') \<and>
           ParseAddr N (api_Value bad) = None \<and>
           snd (GetRecords N T p zone) =
             Inl (RecordConversionError (InvalidIPAddress (api_Value bad)))"
proof -
  have "snd (GetRecords N T p zone) = convertRecordsFrom N [] apiRecords"
    using GetRecords_answered [OF assms(1,2)] assms(3,4,5) by auto
  then show ?thesis
    using convertRecordsFrom_invalid [OF assms(6,7,8), of "[]"] by simp
qed

theorem C6_invalid_ip_aborts_witness:
  "snd (GetRecords ipv4
     (answering \<lparr>StatusCode = 200, Status = ''200 OK'',
        Body = BodyBytes (Some (JObject [(''records'', JArray
          [JObject [(''name'', JString ''a''), (''type'', JString ''TXT''),
                    (''value'', JString ''x''), (''ttl'', JInt 60)],
           JObject [(''name'', JString ''www''), (''type'', JString ''A''),
                    (''value'', JString ''not-an-ip''), (''ttl'', JInt 60)]])]))\<rparr>)
     example_provider ''example.com'') =
     Inl (RecordConversionError (InvalidIPAddress ''not-an-ip''))"
proof -
  let ?js = "[JObject [(''name'', JString ''a''), (''type'', JString ''TXT''),
                    (''value'', JString ''x''), (''ttl'', JInt 60)],
           JObject [(''name'', JString ''www''), (''type'', JString ''A''),
                    (''value'', JString ''not-an-ip''), (''ttl'', JInt 60)]]"
  let ?bad = "\<lparr>api_Name = ''www'', api_Type = ''A'', api_Value = ''not-an-ip'', api_TTL = 60\<rparr>"
  let ?recs = "[\<lparr>api_Name = ''a'', api_Type = ''TXT'', api_Value = ''x'', api_TTL = 60\<rparr>, ?bad]"
  have u: "Unmarshal_apiResponse (Some (JObject [(''records'', JArray ?js)])) = Some ?recs"
    by (simp add: json_eval)
  have p: "ParseAddr ipv4 (api_Value ?bad) = None"
    by (simp add: ipv4_def ParseAddr4_def octet_def is_digit_def byte_def)
  have t: "ToUpper (api_Type ?bad) = ''A'' \<or> ToUpper (api_Type ?bad) = ''AAAA''"
    by (simp add: upper_byte_def byte_def)
  have m: "?bad \<in> set ?recs" by simp
  have q: "ParseAddr ipv4 ''x'' \<noteq> None \<or> ToUpper ''TXT'' = ''TXT''"
    by (simp add: ToUpper_consts del: ToUpper.simps)
  show ?thesis
    using C6_invalid_ip_aborts [OF example_GET Do_answering _ _ disjI1 [OF u] m t p, where
        resp = "\<lparr>StatusCode = 200, Status = ''200 OK'',
          Body = BodyBytes (Some (JObject [(''records'', JArray ?js)]))\<rparr>"]
    by (auto simp: ToUpper_consts simp del: ToUpper.simps)
qed



text \<open>
  Claim C8. AppendRecords, SetRecords and DeleteRecords with an empty record list
  return the empty list and no error, whatever the zone and the configuration, and make
  no HTTP call.
\<close>

theorem C8_empty_batch:
  "AppendRecords N T p zone [] = ([], Inr []) \<and>
   SetRecords N T p zone [] = ([], Inr []) \<and>
   DeleteRecords N T p zone [] = ([], Inr [])"
  by (simp add: AppendRecords_def SetRecords_def DeleteRecords_def)

text \<open>
  Claim C9, as amended. In every operation the string that provider.go builds and gives
  to \<^verbatim>\<open>http.NewRequestWithContext\<close> as the URL of the request is the configured endpoint,
  then \<^verbatim>\<open>/zones/\<close>, then the zone string as the caller gave it, then \<^verbatim>\<open>/records\<close>:
  provider.go does not escape the zone. With a configured endpoint and a URL that
  net/http accepts, GetRecords sends one request with that string, and so do
  AppendRecords, SetRecords and DeleteRecords for a non-empty input list.
\<close>

theorem C9_request_url:
  "(\<forall>req \<in> set (fst (GetRecords N T p zone)).
      url req = Endpoint p @ ''/zones/'' @ zone @ ''/records'') \<and>
   (\<forall>req \<in> set (fst (AppendRecords N T p zone records)).
      url req = Endpoint p @ ''/zones/'' @ zone @ ''/records'') \<and>
   (\<forall>req \<in> set (fst (SetRecords N T p zone records)).
      url req = Endpoint p @ ''/zones/'' @ zone @ ''/records'') \<and>
   (\<forall>req \<in> set (fst (DeleteRecords N T p zone records)).
      url req = Endpoint p @ ''/zones/'' @ zone @ ''/records'') \<and>
   (Endpoint p \<noteq> [] \<and>
    (\<forall>m. NewRequestError T m (Endpoint p @ ''/zones/'' @ zone @ ''/records'') = None) \<longrightarrow>
      map (\<lambda>req. (Method req, url req)) (fst (GetRecords N T p zone)) =
        [(''GET'', Endpoint p @ ''/zones/'' @ zone @ ''/records'')] \<and>
      (records \<noteq> [] \<longrightarrow>
         map (\<lambda>req. (Method req, url req)) (fst (AppendRecords N T p zone records)) =
           [(''POST'', Endpoint p @ ''/zones/'' @ zone @ ''/records'')] \<and>
         map (\<lambda>req. (Method req, url req)) (fst (SetRecords N T p zone records)) =
           [(''PUT'', Endpoint p @ ''/zones/'' @ zone @ ''/records'')] \<and>
         map (\<lambda>req. (Method req, url req)) (fst (DeleteRecords N T p zone records)) =
           [(''DELETE'', Endpoint p @ ''/zones/'' @ zone @ ''/records'')]))"
proof (intro conjI ballI impI)
  fix req assume "req \<in> set (fst (GetRecords N T p zone))"
  then show "url req = Endpoint p @ ''/zones/'' @ zone @ ''/records''"
    unfolding GetRecords_calls by (rule makeRequest_URL)
next
  fix req assume "req \<in> set (fst (AppendRecords N T p zone records))"
  then show "url req = Endpoint p @ ''/zones/'' @ zone @ ''/records''"
    unfolding AppendRecords_calls by (cases "records = []") (auto dest: makeRequest_URL)
next
  fix req assume "req \<in> set (fst (SetRecords N T p zone records))"
  then show "url req = Endpoint p @ ''/zones/'' @ zone @ ''/records''"
    unfolding SetRecords_calls by (cases "records = []") (auto dest: makeRequest_URL)
next
  fix req assume "req \<in> set (fst (DeleteRecords N T p zone records))"
  then show "url req = Endpoint p @ ''/zones/'' @ zone @ ''/records''"
    unfolding DeleteRecords_calls by (cases "records = []") (auto dest: makeRequest_URL)
next
  assume "Endpoint p \<noteq> [] \<and>
    (\<forall>m. NewRequestError T m (Endpoint p @ ''/zones/'' @ zone @ ''/records'') = None)"
  then have e: "Endpoint p \<noteq> []"
    and get: "NewRequestError T ''GET'' (Endpoint p @ ''/zones/'' @ zone @ ''/records'') = None"
    by simp_all
  from GetRecords_sent [OF e get, of N]
  obtain req where "fst (GetRecords N T p zone) = [req]" and "Method req = ''GET''"
    and "url req = Endpoint p @ ''/zones/'' @ zone @ ''/records''"
    by blast
  then show "map (\<lambda>req. (Method req, url req)) (fst (GetRecords N T p zone)) =
        [(''GET'', Endpoint p @ ''/zones/'' @ zone @ ''/records'')]"
    by simp
next
  assume "Endpoint p \<noteq> [] \<and>
    (\<forall>m. NewRequestError T m (Endpoint p @ ''/zones/'' @ zone @ ''/records'') = None)"
  then have e: "Endpoint p \<noteq> []"
    and post: "NewRequestError T ''POST'' (Endpoint p @ ''/zones/'' @ zone @ ''/records'') = None"
    by simp_all
  assume n: "records \<noteq> []"
  from AppendRecords_sent [OF n e post, of N]
  obtain req where "fst (AppendRecords N T p zone records) = [req]" and "Method req = ''POST''"
    and "url req = Endpoint p @ ''/zones/'' @ zone @ ''/records''"
    by blast
  then show "map (\<lambda>req. (Method req, url req)) (fst (AppendRecords N T p zone records)) =
        [(''POST'', Endpoint p @ ''/zones/'' @ zone @ ''/records'')]"
    by simp
next
  assume "Endpoint p \<noteq> [] \<and>
    (\<forall>m. NewRequestError T m (Endpoint p @ ''/zones/'' @ zone @ ''/records'') = None)"
  then have e: "Endpoint p \<noteq> []"
    and put: "NewRequestError T ''PUT'' (Endpoint p @ ''/zones/'' @ zone @ ''/records'') = None"
    by simp_all
  assume n: "records \<noteq> []"
  from SetRecords_sent [OF n e put, of N]
  obtain req where "fst (SetRecords N T p zone records) = [req]" and "Method req = ''PUT''"
    and "url req = Endpoint p @ ''/zones/'' @ zone @ ''/records''"
    by blast
  then show "map (\<lambda>req. (Method req, url req)) (fst (SetRecords N T p zone records)) =
        [(''PUT'', Endpoint p @ ''/zones/'' @ zone @ ''/records'')]"
    by simp
next
  assume "Endpoint p \<noteq> [] \<and>
    (\<forall>m. NewRequestError T m (Endpoint p @ ''/zones/'' @ zone @ ''/records'') = None)"
  then have e: "Endpoint p \<noteq> []"
    and del: "NewRequestError T ''DELETE'' (Endpoint p @ ''/zones/'' @ zone @ ''/records'') = None"
    by simp_all
  assume n: "records \<noteq> []"
  from DeleteRecords_sent [OF n e del, of N]
  obtain req where "fst (DeleteRecords N T p zone records) = [req]" and "Method req = ''DELETE''"
    and "url req = Endpoint p @ ''/zones/'' @ zone @ ''/records''"
    by blast
  then show "map (\<lambda>req. (Method req, url req)) (fst (DeleteRecords N T p zone records)) =
        [(''DELETE'', Endpoint p @ ''/zones/'' @ zone @ ''/records'')]"
    by simp
qed

theorem C9_request_url_witness:
  "map (\<lambda>req. (Method req, url req)) (fst (GetRecords ipv4
       (answering \<lparr>StatusCode = 200, Status = ''200 OK'', Body = BodyBytes (Some (JObject []))\<rparr>)
       example_provider ''example.com'')) =
     [(''GET'', ''https://dns.example/api/zones/example.com/records'')] \<and>
   map (\<lambda>req. (Method req, url req)) (fst (AppendRecords ipv4
       (answering \<lparr>StatusCode = 200, Status = ''200 OK'', Body = BodyBytes (Some (JObject []))\<rparr>)
       example_provider ''example.com'' [TXT ''_acme-challenge'' 0 ''token''])) =
     [(''POST'', ''https://dns.example/api/zones/example.com/records'')] \<and>
   map (\<lambda>req. (Method req, url req)) (fst (SetRecords ipv4
       (answering \<lparr>StatusCode = 200, Status = ''200 OK'', Body = BodyBytes (Some (JObject []))\<rparr>)
       example_provider ''example.com'' [TXT ''_acme-challenge'' 0 ''token''])) =
     [(''PUT'', ''https://dns.example/api/zones/example.com/records'')] \<and>
   map (\<lambda>req. (Method req, url req)) (fst (DeleteRecords ipv4
       (answering \<lparr>StatusCode = 200, Status = ''200 OK'', Body = BodyBytes (Some (JObject []))\<rparr>)
       example_provider ''example.com'' [TXT ''_acme-challenge'' 0 ''token''])) =
     [(''DELETE'', ''https://dns.example/api/zones/example.com/records'')] \<and>
   set (fst (GetRecords ipv4
       (answering \<lparr>StatusCode = 200, Status = ''200 OK'', Body = BodyBytes (Some (JObject []))\<rparr>)
       example_provider ''example.com'')) \<noteq> {}"
proof -
  let ?T = "answering \<lparr>StatusCode = 200, Status = ''200 OK'', Body = BodyBytes (Some (JObject []))\<rparr>"
  let ?records = "[TXT ''_acme-challenge'' 0 ''token''] :: nat list Record list"
  have e: "Endpoint example_provider \<noteq> [] \<and>
    (\<forall>m. NewRequestError ?T m (Endpoint example_provider @ ''/zones/'' @ ''example.com'' @
       ''/records'') = None)"
    by (simp add: example_provider_def answering_def)
  have n: "?records \<noteq> []" by simp
  have u: "Endpoint example_provider @ ''/zones/'' @ ''example.com'' @ ''/records'' =
      ''https://dns.example/api/zones/example.com/records''"
    by (simp add: example_provider_def)
  note t = C9_request_url [where N = ipv4 and T = ?T and p = example_provider and
      zone = "''example.com''" and records = ?records,
      THEN conjunct2, THEN conjunct2, THEN conjunct2, THEN conjunct2, rule_format, OF e]
  have g: "map (\<lambda>req. (Method req, url req)) (fst (GetRecords ipv4 ?T example_provider
      ''example.com'')) = [(''GET'', ''https://dns.example/api/zones/example.com/records'')]"
    using t [THEN conjunct1] unfolding u .
  have a: "map (\<lambda>req. (Method req, url req)) (fst (AppendRecords ipv4 ?T example_provider
      ''example.com'' ?records)) = [(''POST'', ''https://dns.example/api/zones/example.com/records'')]"
    using t [THEN conjunct2, rule_format, OF n, THEN conjunct1] unfolding u .
  have s: "map (\<lambda>req. (Method req, url req)) (fst (SetRecords ipv4 ?T example_provider
      ''example.com'' ?records)) = [(''PUT'', ''https://dns.example/api/zones/example.com/records'')]"
    using t [THEN conjunct2, rule_format, OF n, THEN conjunct2, THEN conjunct1] unfolding u .
  have d: "map (\<lambda>req. (Method req, url req)) (fst (DeleteRecords ipv4 ?T example_provider
      ''example.com'' ?records)) = [(''DELETE'', ''https://dns.example/api/zones/example.com/records'')]"
    using t [THEN conjunct2, rule_format, OF n, THEN conjunct2, THEN conjunct2] unfolding u .
  from g have x: "set (fst (GetRecords ipv4 ?T example_provider ''example.com'')) \<noteq> {}"
    by auto
  from g a s d x show ?thesis by (intro conjI)
qed

text \<open>
  The claim as stated fails for a zone with a slash, such as the zone of a classless
  reverse delegation: the string of the request holds the slash, which net/url reads as a
  separator of the path and sends as it is, where path escaping writes \<^verbatim>\<open>%2F\<close>.
\<close>

theorem C9_request_url_counterexample:
  "map url (fst (GetRecords ipv4
       (answering \<lparr>StatusCode = 200, Status = ''200 OK'', Body = BodyBytes (Some (JObject []))\<rparr>)
       example_provider ''0/25.2.0.192.in-addr.arpa'')) =
     [''https://dns.example/api/zones/0/25.2.0.192.in-addr.arpa/records''] \<and>
   map url (fst (GetRecords ipv4
       (answering \<lparr>StatusCode = 200, Status = ''200 OK'', Body = BodyBytes (Some (JObject []))\<rparr>)
       example_provider ''0/25.2.0.192.in-addr.arpa'')) \<noteq>
     [Endpoint example_provider @ ''/zones/'' @ PathEscape ''0/25.2.0.192.in-addr.arpa'' @
      ''/records''] \<and>
   PathEscape ''0/25.2.0.192.in-addr.arpa'' = ''0%2F25.2.0.192.in-addr.arpa''"
  by (simp add: GetRecords_calls makeRequest_def initClient_def answering_def example_provider_def
      PathEscape_def shouldEscape_def byte_def)
text \<open>
  Claim C10, as amended. GetRecords, given a 200 response whose body is a JSON object:
  with no member that names the records field (as \<^verbatim>\<open>{}\<close>) the result is the empty list;
  in general the result is that of the object's records, or the decoding error when the
  object does not decode, as the bare-array decoding accepts nothing but a JSON array.
\<close>

theorem C10_object_bodies:
  assumes "fst (GetRecords N T p zone) = [req]" and "Do T req = Inr resp"
    and "StatusCode resp = 200" and "Body resp = BodyBytes (Some (JObject members))"
  shows "(''RECORDS'' \<notin> set (map (foldName \<circ> fst) members) \<longrightarrow>
            snd (GetRecords N T p zone) = Inr []) \<and>
         snd (GetRecords N T p zone) =
           (case Unmarshal_apiResponse (Some (JObject members)) of
              Some apiRecords \<Rightarrow> convertRecordsFrom N [] apiRecords
            | None \<Rightarrow> Inl JSONDecodingError) \<and>
         (\<forall>bodyBytes apiRecords.
            Unmarshal_apiResponse bodyBytes = None \<and> Unmarshal_apiRecords bodyBytes = Some apiRecords \<longrightarrow>
            (\<exists>js. bodyBytes = Some (JArray js)))"
proof -
  have r: "snd (GetRecords N T p zone) =
           (case Unmarshal_apiResponse (Some (JObject members)) of
              Some apiRecords \<Rightarrow> convertRecordsFrom N [] apiRecords
            | None \<Rightarrow> Inl JSONDecodingError)"
    using GetRecords_answered [OF assms(1,2)] assms(3,4)
    by (simp split: option.splits)
  have "snd (GetRecords N T p zone) = Inr []"
    if "''RECORDS'' \<notin> set (map (foldName \<circ> fst) members)"
    unfolding r using unmarshal_response_fields_no_records [OF that, of "([], [])"] by simp
  with r fallback_only_array show ?thesis by blast
qed

theorem C10_object_bodies_witness:
  "snd (GetRecords ipv4
     (answering \<lparr>StatusCode = 200, Status = ''200 OK'', Body = BodyBytes (Some (JObject []))\<rparr>)
     example_provider ''example.com'') = Inr [] \<and>
   snd (GetRecords ipv4
     (answering \<lparr>StatusCode = 200, Status = ''200 OK'',
        Body = BodyBytes (Some (JObject [(''zone'', JString ''example.com'')]))\<rparr>)
     example_provider ''example.com'') = Inr []"
  using C10_object_bodies [OF example_GET Do_answering, where
        resp = "\<lparr>StatusCode = 200, Status = ''200 OK'', Body = BodyBytes (Some (JObject []))\<rparr>"
        and members = "[]"]
    C10_object_bodies [OF example_GET Do_answering, where
        resp = "\<lparr>StatusCode = 200, Status = ''200 OK'',
          Body = BodyBytes (Some (JObject [(''zone'', JString ''example.com'')]))\<rparr>"
        and members = "[(''zone'', JString ''example.com'')]"]
  by (simp add: json_eval)

text \<open>
  The claim as stated fails for an object whose records member is not an array: the
  first decoding fails, the second fails on an object, and the result is the decoding
  error.
\<close>

theorem C10_object_bodies_counterexample:
  "snd (GetRecords ipv4
     (answering \<lparr>StatusCode = 200, Status = ''200 OK'',
        Body = BodyBytes (Some (JObject [(''records'', JInt 5)]))\<rparr>)
     example_provider ''example.com'') = Inl JSONDecodingError"
  using GetRecords_answered [OF example_GET Do_answering, where
      resp = "\<lparr>StatusCode = 200, Status = ''200 OK'',
        Body = BodyBytes (Some (JObject [(''records'', JInt 5)]))\<rparr>"]
  by (simp add: json_eval)

end
